theory Spec2Isabelle
  imports Main
begin

section \<open>The packaging script of pykimuracore\<close>

text \<open>
  The repository is one file, \<^verbatim>\<open>setup.py\<close>:
  \<^verbatim>\<open>
  from distutils.core import setup
  from distutils.extension import Extension

  my_ext_name = 'pykimuracore'

  my_ext = Extension(my_ext_name, [my_ext_name + '.c'])

  setup(
          name = my_ext_name,
          version = '0.1',
          ext_modules = [my_ext],
          )
  \<close>
  It is straight-line code at module level: three statements, each evaluated once, none
  of them inside a function, a branch or a loop. The two callees, \<^verbatim>\<open>Extension\<close> and
  \<^verbatim>\<open>setup\<close>, are imported from \<^verbatim>\<open>distutils\<close>; their bodies are not
  part of the repository. The embedding therefore models what the script itself computes:
  the module-level constant, the arguments it gives to \<^verbatim>\<open>Extension\<close> and the
  keyword arguments it gives to \<^verbatim>\<open>setup\<close>. Nothing is assumed about what the two
  callees do with those arguments.
\<close>

subsection \<open>Data\<close>

text \<open>
  The two positional arguments of the call \<^verbatim>\<open>Extension(name, sources)\<close>: the
  extension's dotted module name and the list of its source file names. The record holds
  the arguments in the order of the call; a Python \<^verbatim>\<open>str\<close> is a \<^typ>\<open>string\<close>,
  a Python list of \<^verbatim>\<open>str\<close> a \<^typ>\<open>string list\<close>.
\<close>

record extension =
  ext_name :: string
  sources :: "string list"

text \<open>
  The keyword arguments of the call \<^verbatim>\<open>setup(name=..., version=..., ext_modules=...)\<close>,
  under the keywords the script writes.
\<close>

record setup_args =
  name :: string
  version :: string
  ext_modules :: "extension list"

subsection \<open>The statements of the script\<close>

text \<open>Line 8: \<^verbatim>\<open>my_ext_name = 'pykimuracore'\<close>.\<close>

definition my_ext_name :: string where
  "my_ext_name = ''pykimuracore''"

text \<open>
  Line 10: \<^verbatim>\<open>my_ext = Extension(my_ext_name, [my_ext_name + '.c'])\<close>. Python's
  \<^verbatim>\<open>+\<close> on two \<^verbatim>\<open>str\<close> values is concatenation, \<open>@\<close> on \<^typ>\<open>string\<close>.
\<close>

definition my_ext :: extension where
  "my_ext = \<lparr>ext_name = my_ext_name, sources = [my_ext_name @ ''.c'']\<rparr>"

text \<open>
  Lines 12 to 16: the call of \<^verbatim>\<open>setup\<close>, as the keyword arguments it receives.
\<close>

definition setup_call :: setup_args where
  "setup_call = \<lparr>name = my_ext_name, version = ''0.1'', ext_modules = [my_ext]\<rparr>"

section \<open>Properties of the script\<close>

subsection \<open>What the build step receives\<close>

text \<open>
  The list of extensions given to \<^verbatim>\<open>setup\<close> holds the descriptor of line 10 and
  nothing else.
\<close>

lemma ext_modules_singleton: "ext_modules setup_call = [my_ext]"
  by (simp add: setup_call_def)

lemma ext_modules_length: "length (ext_modules setup_call) = 1"
  by (simp add: setup_call_def)

lemma setup_call_version: "version setup_call = ''0.1''"
  by (simp add: setup_call_def)

subsection \<open>The descriptor is well-formed\<close>

text \<open>
  Claim C8. The descriptor the script constructs satisfies the validity preconditions of a
  declaration: its name is the string \<^verbatim>\<open>pykimuracore\<close>, which is not empty, and its
  list of sources has exactly one element, so it is not empty either. The condition under
  which a declaration is rejected as malformed (an empty name or an empty list of sources)
  is therefore false at the arguments of this script's one declaration, and that
  declaration is the one the build step receives.
\<close>

theorem my_ext_well_formed:
  "ext_name my_ext = ''pykimuracore'' \<and>
   ext_name my_ext \<noteq> [] \<and>
   length (sources my_ext) = 1 \<and>
   \<not> (ext_name my_ext = [] \<or> sources my_ext = []) \<and>
   ext_modules setup_call = [my_ext]"
  by (simp add: my_ext_def my_ext_name_def setup_call_def)

subsection \<open>The source file is named after the module\<close>

text \<open>
  Claim C9. The list of sources is not an input of its own: it is computed from the module
  name. The descriptor's sources are the one-element list holding the descriptor's name
  followed by the suffix \<^verbatim>\<open>.c\<close>, which here is the file name \<^verbatim>\<open>pykimuracore.c\<close>.
\<close>

theorem my_ext_sources_from_name:
  "sources my_ext = [ext_name my_ext @ ''.c''] \<and>
   sources my_ext = [''pykimuracore.c'']"
  by (simp add: my_ext_def my_ext_name_def)

subsection \<open>Distribution name and extension name coincide\<close>

text \<open>
  Claim C10. The distribution name given to the build step and the name of the extension
  module are the same constant: the \<^verbatim>\<open>name\<close> keyword of \<^verbatim>\<open>setup\<close> equals the
  name of the one extension in \<^verbatim>\<open>ext_modules\<close>, and both are \<^verbatim>\<open>pykimuracore\<close>.
\<close>

theorem setup_name_is_ext_name:
  "name setup_call = ext_name my_ext \<and>
   name setup_call = ''pykimuracore'' \<and>
   ext_name my_ext = ''pykimuracore'' \<and>
   map ext_name (ext_modules setup_call) = [name setup_call]"
  by (simp add: setup_call_def my_ext_def my_ext_name_def)

end
